theory Spec2Isabelle
  imports Main "HOL-Library.AList"
begin

section \<open>JavaScript values and objects\<close>

text \<open>
  The values that reach the service: JSON values parsed from a request body or read
  back from the collection, and \<open>undefined\<close> for an absent property. Numbers are
  integers here; only their being zero or not is ever observed. A JavaScript string is
  an Isabelle \<open>string\<close>, the bytes of its UTF-8 encoding.
\<close>

datatype jsval =
    JUndefined
  | JNull
  | JBool bool
  | JNum int
  | JStr string
  | JArr "jsval list"
  | JObj "(string \<times> jsval) list"

text \<open>
  An object is the list of its own properties in insertion order. \<open>obj.k = v\<close> is
  \<open>AList.update k v\<close> (replace in place, or append), \<open>delete obj.k\<close> is
  \<open>AList.delete k\<close>, and reading \<open>obj.k\<close> is \<open>getprop obj k\<close>.
\<close>

type_synonym doc = "(string \<times> jsval) list"

definition getprop :: "doc \<Rightarrow> string \<Rightarrow> jsval" where
  "getprop obj k = (case map_of obj k of None \<Rightarrow> JUndefined | Some v \<Rightarrow> v)"

text \<open>\<open>!v\<close>: the falsy values are undefined, null, false, 0 and the empty string.\<close>

fun falsy :: "jsval \<Rightarrow> bool" where
  "falsy JUndefined = True"
| "falsy JNull = True"
| "falsy (JBool b) = (b = False)"
| "falsy (JNum n) = (n = 0)"
| "falsy (JStr s) = (s = [])"
| "falsy (JArr xs) = False"
| "falsy (JObj kvs) = False"

text \<open>\<open>typeof v !== "string"\<close>\<close>

fun not_string :: "jsval \<Rightarrow> bool" where
  "not_string (JStr s) = False"
| "not_string v = True"

section \<open>Promises\<close>

text \<open>
  What a promise returned by the store comes to: resolved with a value, rejected with
  an error, or never settled. The store builds each result with
  \<open>new Promise((resolve, reject) => ...)\<close>; where the executor only returns an inner
  promise chain, a rejection of that chain reaches neither \<open>resolve\<close> nor
  \<open>reject\<close>, and the outer promise stays pending.
\<close>

datatype error =
    InvalidParameters
  | DidNotInsert
  | MultipleDocs string

datatype 'a promise = Resolved 'a | Rejected error | Pending

section \<open>The bcrypt library\<close>

text \<open>
  \<open>bcrypt.hash(password, rounds)\<close> and \<open>bcrypt.compare(password, hash)\<close> belong to
  an external package. They are parameters of the model. The salt that \<open>hash\<close>
  draws at random is an explicit argument.
\<close>

record bcrypt =
  bcrypt_hash :: "string \<Rightarrow> nat \<Rightarrow> string \<Rightarrow> string"
  bcrypt_compare :: "string \<Rightarrow> string \<Rightarrow> bool"

text \<open>The contract of the package: a hash verifies the password it was made from.\<close>

definition bcrypt_sound :: "bcrypt \<Rightarrow> bool" where
  "bcrypt_sound B = (\<forall>p r s. bcrypt_compare B p (bcrypt_hash B p r s) = True)"

text \<open>An instance of the contract, for evaluation on concrete inputs.\<close>

definition plain_bcrypt :: bcrypt where
  "plain_bcrypt = \<lparr>bcrypt_hash = (\<lambda>p r s. p), bcrypt_compare = (\<lambda>p h. h = p)\<rparr>"

text \<open>
  The contract does not say that a hash refuses every other password, and the package
  does not: it reads only the first 72 bytes of a password. A second instance of the
  contract does the same.
\<close>

definition truncating_bcrypt :: bcrypt where
  "truncating_bcrypt =
     \<lparr>bcrypt_hash = (\<lambda>p r s. take 72 p), bcrypt_compare = (\<lambda>p h. h = take 72 p)\<rparr>"

section \<open>The users collection\<close>

text \<open>
  The Mongo collection is the list of its documents. \<open>find({_id: id}).toArray()\<close>
  returns the documents whose \<open>_id\<close> is \<open>id\<close>; \<open>insertOne(doc)\<close> appends the
  document and reports \<open>insertedCount\<close>. The store inserts only after \<open>find\<close> has
  returned nothing, so an insert never meets a document with the same \<open>_id\<close>. A
  failing connection is outside the model.
\<close>

type_synonym collection = "doc list"

definition users_find :: "collection \<Rightarrow> jsval \<Rightarrow> doc list" where
  "users_find users uid = filter (\<lambda>d. map_of d ''_id'' = Some uid) users"

definition insertOne :: "collection \<Rightarrow> doc \<Rightarrow> collection \<times> nat" where
  "insertOne users d = (users @ [d], 1)"

section \<open>UserDatabase\<close>

datatype create_result = AlreadyExists | Created

datatype check_result = Valid | Invalid | NotFound

datatype get_result = Found doc | GetNotFound

text \<open>
  The source's \<open>id\<close> is written \<open>uid\<close>, since \<open>id\<close> is the identity function of
  HOL.

  \<open>UserDatabase.createUser(id, password, data)\<close>. The result is the promise's outcome
  and the collection afterwards. \<open>resolve("already exists")\<close> is \<open>AlreadyExists\<close>,
  \<open>resolve(true)\<close> is \<open>Created\<close>. \<open>data\<close> is \<open>None\<close> for null or undefined.
\<close>

definition UserDatabase_createUser ::
  "bcrypt \<Rightarrow> string \<Rightarrow> collection \<Rightarrow> jsval \<Rightarrow> jsval \<Rightarrow> doc option
     \<Rightarrow> create_result promise \<times> collection" where
  "UserDatabase_createUser B salt users uid password data =
     (if falsy uid \<or> not_string uid \<or> falsy password \<or> not_string password \<or> data = None
      then (Rejected InvalidParameters, users)
      else
        (case (uid, password, data) of
           (JStr i, JStr p, Some d) \<Rightarrow>
             (case users_find users uid of
                [doc] \<Rightarrow> (Resolved AlreadyExists, users)
              | [] \<Rightarrow>
                  (let hashedPassword = bcrypt_hash B p 10 salt;
                       d1 = AList.update ''_id'' uid d;
                       d2 = AList.update ''_pw'' (JStr hashedPassword) d1;
                       (users', insertedCount) = insertOne users d2
                   in if insertedCount = 1 then (Resolved Created, users')
                      else (Rejected DidNotInsert, users'))
              | _ \<Rightarrow> (Rejected (MultipleDocs i), users))
         | _ \<Rightarrow> (Rejected InvalidParameters, users)))"

text \<open>
  \<open>UserDatabase.checkPassword(id, password)\<close>. When the one document found has no
  string under \<open>_pw\<close>, \<open>bcrypt.compare\<close> rejects inside the executor and the
  promise never settles.
\<close>

definition UserDatabase_checkPassword ::
  "bcrypt \<Rightarrow> collection \<Rightarrow> jsval \<Rightarrow> jsval \<Rightarrow> check_result promise" where
  "UserDatabase_checkPassword B users uid password =
     (if falsy uid \<or> not_string uid \<or> falsy password \<or> not_string password
      then Rejected InvalidParameters
      else
        (case (uid, password) of
           (JStr i, JStr p) \<Rightarrow>
             (case users_find users uid of
                [doc] \<Rightarrow>
                  (case getprop doc ''_pw'' of
                     JStr hashedPassword \<Rightarrow>
                       (if bcrypt_compare B p hashedPassword = True then Resolved Valid
                        else Resolved Invalid)
                   | _ \<Rightarrow> Pending)
              | [] \<Rightarrow> Resolved NotFound
              | _ \<Rightarrow> Rejected (MultipleDocs i))
         | _ \<Rightarrow> Rejected InvalidParameters))"

text \<open>\<open>UserDatabase.getUser(id)\<close>\<close>

definition UserDatabase_getUser :: "collection \<Rightarrow> jsval \<Rightarrow> get_result promise" where
  "UserDatabase_getUser users uid =
     (if falsy uid \<or> not_string uid then Rejected InvalidParameters
      else
        (case uid of
           JStr i \<Rightarrow>
             (case users_find users uid of
                [doc] \<Rightarrow> Resolved (Found (AList.delete ''_pw'' (AList.delete ''_id'' doc)))
              | [] \<Rightarrow> Resolved GetNotFound
              | _ \<Rightarrow> Rejected (MultipleDocs i))
         | _ \<Rightarrow> Rejected InvalidParameters))"

section \<open>Built-in string functions\<close>

text \<open>
  \<open>decodeURIComponent(x)\<close> first converts its argument to a string, so an absent
  (undefined) argument is the string \<open>undefined\<close>. It then replaces every escape
  \<open>%XX\<close>, and throws \<open>URIError\<close> when an escape is cut short, is not
  hexadecimal, or when the escaped octets above 127 are not the UTF-8 encoding of a code
  point.
\<close>

datatype exception = URIError

definition hex_digit :: "char \<Rightarrow> nat option" where
  "hex_digit c =
     (let n = (of_char c :: nat) in
      if 48 \<le> n \<and> n \<le> 57 then Some (n - 48)
      else if 65 \<le> n \<and> n \<le> 70 then Some (n - 55)
      else if 97 \<le> n \<and> n \<le> 102 then Some (n - 87)
      else None)"

definition ParseHexOctet :: "char \<Rightarrow> char \<Rightarrow> nat option" where
  "ParseHexOctet h1 h2 =
     (case (hex_digit h1, hex_digit h2) of
        (Some a, Some b) \<Rightarrow> Some (16 * a + b)
      | _ \<Rightarrow> None)"

datatype piece = Plain char | Octet nat

fun percent_pieces :: "string \<Rightarrow> piece list option" where
  "percent_pieces [] = Some []"
| "percent_pieces (c # s) =
     (if c = CHR ''%'' then
        (case s of
           h1 # h2 # rest \<Rightarrow>
             (case ParseHexOctet h1 h2 of
                None \<Rightarrow> None
              | Some b \<Rightarrow>
                  (case percent_pieces rest of None \<Rightarrow> None | Some ps \<Rightarrow> Some (Octet b # ps)))
         | _ \<Rightarrow> None)
      else (case percent_pieces s of None \<Rightarrow> None | Some ps \<Rightarrow> Some (Plain c # ps)))"

text \<open>The number of leading 1 bits of an octet above 127 (5 stands for 5 or more).\<close>

definition leading_ones :: "nat \<Rightarrow> nat" where
  "leading_ones b =
     (if b < 192 then 1 else if b < 224 then 2 else if b < 240 then 3
      else if b < 248 then 4 else 5)"

definition continuation :: "nat \<Rightarrow> bool" where
  "continuation b = (128 \<le> b \<and> b \<le> 191)"

text \<open>Well-formed UTF-8 of one code point: no overlong form, no surrogate, at most U+10FFFF.\<close>

definition valid_utf8 :: "nat list \<Rightarrow> bool" where
  "valid_utf8 bs =
     (case bs of
        [b0, b1] \<Rightarrow> 194 \<le> b0 \<and> b0 \<le> 223 \<and> continuation b1
      | [b0, b1, b2] \<Rightarrow>
          ((b0 = 224 \<and> 160 \<le> b1 \<and> b1 \<le> 191) \<or> (225 \<le> b0 \<and> b0 \<le> 236 \<and> continuation b1) \<or>
           (b0 = 237 \<and> 128 \<le> b1 \<and> b1 \<le> 159) \<or> (238 \<le> b0 \<and> b0 \<le> 239 \<and> continuation b1))
          \<and> continuation b2
      | [b0, b1, b2, b3] \<Rightarrow>
          ((b0 = 240 \<and> 144 \<le> b1 \<and> b1 \<le> 191) \<or> (241 \<le> b0 \<and> b0 \<le> 243 \<and> continuation b1) \<or>
           (b0 = 244 \<and> 128 \<le> b1 \<and> b1 \<le> 143))
          \<and> continuation b2 \<and> continuation b3
      | _ \<Rightarrow> False)"

fun octets :: "piece list \<Rightarrow> nat list option" where
  "octets [] = Some []"
| "octets (Octet b # ps) = (case octets ps of None \<Rightarrow> None | Some bs \<Rightarrow> Some (b # bs))"
| "octets (Plain c # ps) = None"

fun utf8_pieces :: "piece list \<Rightarrow> string option" where
  "utf8_pieces [] = Some []"
| "utf8_pieces (Plain c # ps) =
     (case utf8_pieces ps of None \<Rightarrow> None | Some r \<Rightarrow> Some (c # r))"
| "utf8_pieces (Octet b # ps) =
     (if b < 128 then
        (case utf8_pieces ps of None \<Rightarrow> None | Some r \<Rightarrow> Some (char_of b # r))
      else if leading_ones b = 1 \<or> 4 < leading_ones b \<or> length ps < leading_ones b - 1 then None
      else
        (case octets (take (leading_ones b - 1) ps) of
           None \<Rightarrow> None
         | Some bs \<Rightarrow>
             if valid_utf8 (b # bs) then
               (case utf8_pieces (drop (leading_ones b - 1) ps) of
                  None \<Rightarrow> None
                | Some r \<Rightarrow> Some (map char_of (b # bs) @ r))
             else None))"

definition decodeURIComponent :: "string option \<Rightarrow> exception + string" where
  "decodeURIComponent x =
     (let componentString = (case x of None \<Rightarrow> ''undefined'' | Some s \<Rightarrow> s) in
      case percent_pieces componentString of
        None \<Rightarrow> Inl URIError
      | Some ps \<Rightarrow> (case utf8_pieces ps of None \<Rightarrow> Inl URIError | Some r \<Rightarrow> Inr r))"

text \<open>\<open>s.split(" ")\<close>: the pieces between single spaces, empty pieces kept.\<close>

fun split_space :: "string \<Rightarrow> string list" where
  "split_space [] = [[]]"
| "split_space (c # cs) =
     (if c = CHR '' '' then [] # split_space cs
      else (case split_space cs of w # ws \<Rightarrow> (c # w) # ws | [] \<Rightarrow> [[c]]))"

text \<open>
  \<open>s.toLowerCase()\<close> on the ASCII letters. Other bytes stay as they are: no character
  outside ASCII has one of the letters of \<open>bearer\<close> as its lower case, so the comparison
  with \<open>"bearer"\<close> comes out the same.
\<close>

definition toLowerCase :: "string \<Rightarrow> string" where
  "toLowerCase s =
     map (\<lambda>c. if 65 \<le> (of_char c :: nat) \<and> (of_char c :: nat) \<le> 90
              then char_of ((of_char c :: nat) + 32) else c) s"

text \<open>A number in a template string: its decimal digits.\<close>

fun decimal :: "nat \<Rightarrow> string" where
  "decimal n = (if n < 10 then [char_of (48 + n)] else decimal (n div 10) @ [char_of (48 + n mod 10)])"

section \<open>The jsonwebtoken library\<close>

text \<open>
  \<open>jwt.sign(payload, secret, {expiresIn})\<close> and \<open>jwt.verify(token, secret, {maxAge})\<close>
  belong to an external package and are parameters of the model. Both read the clock;
  the clock, in whole seconds, is their last argument. \<open>verify\<close> returns the payload or
  throws.
\<close>

datatype jwt_error = JsonWebTokenError | TokenExpiredError

record jwt =
  jwt_sign :: "doc \<Rightarrow> string \<Rightarrow> int \<Rightarrow> int \<Rightarrow> string"
  jwt_verify :: "string \<Rightarrow> string \<Rightarrow> int \<Rightarrow> int \<Rightarrow> jwt_error + doc"

text \<open>
  The contract of the package. A token is a non-empty string without spaces (base64url
  segments joined by dots). A token signed at \<open>t0\<close> with \<open>expiresIn = e\<close> and verified
  at \<open>t1\<close> under the same secret with \<open>maxAge = m\<close> is refused exactly when it has
  expired, \<open>t0 + e \<le> t1\<close>, or when a non-zero \<open>maxAge\<close> is exceeded, \<open>t0 + m \<le> t1\<close>.
\<close>

definition jwt_contract :: "jwt \<Rightarrow> bool" where
  "jwt_contract J =
     (\<forall>payload secret e m t0 t1.
        jwt_sign J payload secret e t0 \<noteq> [] \<and>
        CHR '' '' \<notin> set (jwt_sign J payload secret e t0) \<and>
        isl (jwt_verify J (jwt_sign J payload secret e t0) secret m t1) =
          (t0 + e \<le> t1 \<or> (m \<noteq> 0 \<and> t0 + m \<le> t1)))"

text \<open>
  The clock that both functions read is \<open>Math.floor(Date.now() / 1000)\<close>: the whole
  seconds of a time given in milliseconds.
\<close>

definition clock_reading :: "int \<Rightarrow> int" where
  "clock_reading ms = ms div 1000"

text \<open>
  An instance of the contract, for evaluation on concrete inputs: the token is the
  issue time and the expiry time in unary, joined by a dot.
\<close>

definition unary :: "int \<Rightarrow> string" where
  "unary z = (if z < 0 then CHR ''-'' else CHR ''+'') # replicate (nat \<bar>z\<bar>) (CHR ''1'')"

definition of_unary :: "string \<Rightarrow> int option" where
  "of_unary s =
     (case s of
        [] \<Rightarrow> None
      | c # r \<Rightarrow>
          if r = replicate (length r) (CHR ''1'') then
            (if c = CHR ''-'' then Some (- int (length r))
             else if c = CHR ''+'' then Some (int (length r))
             else None)
          else None)"

definition unary_jwt :: jwt where
  "unary_jwt =
     \<lparr>jwt_sign = (\<lambda>payload secret e t0. unary t0 @ ''.'' @ unary (t0 + e)),
      jwt_verify = (\<lambda>token secret m t1.
        (case (of_unary (takeWhile (\<lambda>c. c \<noteq> CHR ''.'') token),
               of_unary (drop 1 (dropWhile (\<lambda>c. c \<noteq> CHR ''.'') token))) of
           (Some iat, Some exp) \<Rightarrow>
             if exp \<le> t1 \<or> (m \<noteq> 0 \<and> iat + m \<le> t1) then Inl TokenExpiredError
             else Inr [(''iat'', JNum iat), (''exp'', JNum exp)]
         | _ \<Rightarrow> Inl JsonWebTokenError))\<rparr>"

section \<open>Server\<close>

abbreviation OK :: nat where "OK \<equiv> 200"
abbreviation CREATED :: nat where "CREATED \<equiv> 201"
abbreviation SEE_OTHER :: nat where "SEE_OTHER \<equiv> 303"
abbreviation BAD_REQUEST :: nat where "BAD_REQUEST \<equiv> 400"
abbreviation UNAUTHORIZED :: nat where "UNAUTHORIZED \<equiv> 401"
abbreviation NOT_FOUND :: nat where "NOT_FOUND \<equiv> 404"
abbreviation INTERNAL_SERVER_ERROR :: nat where "INTERNAL_SERVER_ERROR \<equiv> 500"

definition authSecret :: string where
  "authSecret = ''superSecretString''"

text \<open>
  Of the server object, the port and the token lifetime in seconds, both given on the
  command line.
\<close>

record server =
  port :: nat
  authTimeout :: int

text \<open>
  What a handler reads of an Express request. \<open>None\<close> is \<open>undefined\<close>: a parameter or
  header that is absent, a body that was not parsed.
\<close>

record request =
  params_id :: "string option"
  query_pw :: "string option"
  req_body :: "doc option"
  authorization :: "string option"
  protocol :: string
  hostname :: string

record response =
  status :: nat
  headers :: "(string \<times> string) list"
  sent :: jsval

text \<open>
  A handler answers, or throws before it answers (Express turns that into its own error
  response), or never answers because the store's promise never settles.
\<close>

datatype outcome = Responded response | Threw exception | NoResponse

definition getRequestBaseUrl :: "server \<Rightarrow> request \<Rightarrow> string" where
  "getRequestBaseUrl S req = protocol req @ ''://'' @ hostname req @ '':'' @ decimal (port S) @ ''/''"

definition createAuthToken :: "jwt \<Rightarrow> server \<Rightarrow> int \<Rightarrow> string \<Rightarrow> string" where
  "createAuthToken J S now uid =
     (let payload = [(''id'', JStr uid)];
          expiresIn = authTimeout S
      in jwt_sign J payload authSecret expiresIn now)"

definition checkAuthToken :: "jwt \<Rightarrow> server \<Rightarrow> int \<Rightarrow> string \<Rightarrow> bool" where
  "checkAuthToken J S now authToken =
     (let maxAge = authTimeout S in
      case jwt_verify J authToken authSecret maxAge now of
        Inr payload \<Rightarrow> True
      | Inl err \<Rightarrow> False)"

definition bad_request :: "string \<Rightarrow> response" where
  "bad_request info =
     \<lparr>status = BAD_REQUEST, headers = [],
      sent = JObj [(''status'', JStr ''ERROR_BAD_REQUEST''), (''info'', JStr info)]\<rparr>"

definition unauthorized :: "string \<Rightarrow> response" where
  "unauthorized info =
     \<lparr>status = UNAUTHORIZED, headers = [],
      sent = JObj [(''status'', JStr ''ERROR_UNAUTHORIZED''), (''info'', JStr info)]\<rparr>"

definition not_found :: "string \<Rightarrow> response" where
  "not_found uid =
     \<lparr>status = NOT_FOUND, headers = [],
      sent = JObj [(''status'', JStr ''ERROR_NOT_FOUND''),
                   (''info'', JStr (''user '' @ uid @ '' not found''))]\<rparr>"

definition internal_server_error :: response where
  "internal_server_error =
     \<lparr>status = INTERNAL_SERVER_ERROR, headers = [],
      sent = JObj [(''status'', JStr ''ERROR_INTERNAL_SERVER_ERROR''),
                   (''info'', JStr ''server encountered unexpected error'')]\<rparr>"

text \<open>\<open>Server.createUser(req, res)\<close>: the answer and the collection afterwards.\<close>

definition Server_createUser ::
  "bcrypt \<Rightarrow> jwt \<Rightarrow> server \<Rightarrow> string \<Rightarrow> int \<Rightarrow> collection \<Rightarrow> request \<Rightarrow> outcome \<times> collection" where
  "Server_createUser B J S salt now users req =
     (case decodeURIComponent (params_id req) of
        Inl e \<Rightarrow> (Threw e, users)
      | Inr uid \<Rightarrow>
     (case decodeURIComponent (query_pw req) of
        Inl e \<Rightarrow> (Threw e, users)
      | Inr password \<Rightarrow>
          (let body = req_body req in
           if uid = [] \<or> password = [] \<or> body = None
           then (Responded (bad_request ''ID, password, or body is invalid''), users)
           else
             (case UserDatabase_createUser B salt users (JStr uid) (JStr password) body of
                (Resolved result, users') \<Rightarrow>
                  if result = AlreadyExists
                  then (Responded
                          \<lparr>status = SEE_OTHER,
                           headers = [(''Location'', getRequestBaseUrl S req @ ''users/'' @ uid)],
                           sent = JObj [(''status'', JStr ''EXISTS''),
                                        (''info'', JStr (''user '' @ uid @ '' already exists''))]\<rparr>,
                        users')
                  else (Responded
                          \<lparr>status = CREATED,
                           headers = [(''Location'', getRequestBaseUrl S req @ ''users/'' @ uid)],
                           sent = JObj [(''status'', JStr ''CREATED''),
                                        (''authToken'', JStr (createAuthToken J S now uid))]\<rparr>,
                        users')
              | (Rejected err, users') \<Rightarrow> (Responded internal_server_error, users')
              | (Pending, users') \<Rightarrow> (NoResponse, users')))))"

text \<open>\<open>Server.logIn(req, res)\<close>\<close>

definition Server_logIn ::
  "bcrypt \<Rightarrow> jwt \<Rightarrow> server \<Rightarrow> int \<Rightarrow> collection \<Rightarrow> request \<Rightarrow> outcome" where
  "Server_logIn B J S now users req =
     (case decodeURIComponent (params_id req) of
        Inl e \<Rightarrow> Threw e
      | Inr uid \<Rightarrow>
          (case req_body req of
             None \<Rightarrow> Responded (bad_request ''ID or body is invalid'')
           | Some body \<Rightarrow>
               if uid = [] then Responded (bad_request ''ID or body is invalid'')
               else if falsy (getprop body ''pw'')
               then Responded (unauthorized
                      (''/users/'' @ uid @ ''/auth requires a valid 'pw' password query parameter''))
               else
                 (case UserDatabase_checkPassword B users (JStr uid) (getprop body ''pw'') of
                    Resolved NotFound \<Rightarrow> Responded (not_found uid)
                  | Resolved Invalid \<Rightarrow>
                      Responded (unauthorized
                        (''/users/'' @ uid @ ''/auth requires a valid 'pw' password query parameter''))
                  | Resolved Valid \<Rightarrow>
                      Responded
                        \<lparr>status = OK, headers = [],
                         sent = JObj [(''status'', JStr ''OK''),
                                      (''authToken'', JStr (createAuthToken J S now uid))]\<rparr>
                  | Rejected err \<Rightarrow> Responded internal_server_error
                  | Pending \<Rightarrow> NoResponse)))"

text \<open>
  \<open>Server.getUser(req, res)\<close>. \<open>authValueSplit[1]\<close> is undefined when the header has
  no space; \<open>res.json(result)\<close> answers with status 200 and the profile as the body.
\<close>

definition Server_getUser ::
  "jwt \<Rightarrow> server \<Rightarrow> int \<Rightarrow> collection \<Rightarrow> request \<Rightarrow> outcome" where
  "Server_getUser J S now users req =
     (case decodeURIComponent (params_id req) of
        Inl e \<Rightarrow> Threw e
      | Inr uid \<Rightarrow>
          if uid = [] then Responded (bad_request ''ID is invalid'')
          else
            (let refused = Responded (unauthorized
                   (''/users/'' @ uid @ '' requires a bearer authorization header''))
             in
             case authorization req of
               None \<Rightarrow> refused
             | Some authValue \<Rightarrow>
                 (case split_space authValue of
                    scheme # authToken # rest \<Rightarrow>
                      if authValue = [] \<or> toLowerCase scheme \<noteq> ''bearer'' \<or> authToken = []
                      then refused
                      else if checkAuthToken J S now authToken then
                        (case UserDatabase_getUser users (JStr uid) of
                           Resolved GetNotFound \<Rightarrow> Responded (not_found uid)
                         | Resolved (Found result) \<Rightarrow>
                             Responded \<lparr>status = OK, headers = [], sent = JObj result\<rparr>
                         | Rejected err \<Rightarrow> Responded internal_server_error
                         | Pending \<Rightarrow> NoResponse)
                      else refused
                  | _ \<Rightarrow> refused)))"

section \<open>The store on valid arguments\<close>

text \<open>
  Past the argument check, each operation of the store is a case distinction on the
  documents found for the id.
\<close>

lemma createUser_valid:
  "uid \<noteq> [] \<Longrightarrow> password \<noteq> [] \<Longrightarrow>
   UserDatabase_createUser B salt users (JStr uid) (JStr password) (Some d) =
     (case users_find users (JStr uid) of
        [doc] \<Rightarrow> (Resolved AlreadyExists, users)
      | [] \<Rightarrow>
          (Resolved Created,
           users @ [AList.update ''_pw'' (JStr (bcrypt_hash B password 10 salt))
                      (AList.update ''_id'' (JStr uid) d)])
      | _ \<Rightarrow> (Rejected (MultipleDocs uid), users))"
  by (simp add: UserDatabase_createUser_def insertOne_def split: list.splits)

lemma checkPassword_valid:
  "uid \<noteq> [] \<Longrightarrow> password \<noteq> [] \<Longrightarrow>
   UserDatabase_checkPassword B users (JStr uid) (JStr password) =
     (case users_find users (JStr uid) of
        [doc] \<Rightarrow>
          (case getprop doc ''_pw'' of
             JStr hashedPassword \<Rightarrow>
               (if bcrypt_compare B password hashedPassword then Resolved Valid
                else Resolved Invalid)
           | _ \<Rightarrow> Pending)
      | [] \<Rightarrow> Resolved NotFound
      | _ \<Rightarrow> Rejected (MultipleDocs uid))"
  by (simp add: UserDatabase_checkPassword_def split: list.splits jsval.splits)

lemma getUser_valid:
  "uid \<noteq> [] \<Longrightarrow>
   UserDatabase_getUser users (JStr uid) =
     (case users_find users (JStr uid) of
        [doc] \<Rightarrow> Resolved (Found (AList.delete ''_pw'' (AList.delete ''_id'' doc)))
      | [] \<Rightarrow> Resolved GetNotFound
      | _ \<Rightarrow> Rejected (MultipleDocs uid))"
  by (simp add: UserDatabase_getUser_def)

lemma users_find_append:
  "users_find (users @ [d]) uid =
     users_find users uid @ (if map_of d ''_id'' = Some uid then [d] else [])"
  by (simp add: users_find_def)

lemma stored_doc_id:
  "map_of (AList.update ''_pw'' h (AList.update ''_id'' uid d)) ''_id'' = Some uid"
  by (simp add: update_conv)

lemma stored_doc_pw:
  "getprop (AList.update ''_pw'' h (AList.update ''_id'' uid d)) ''_pw'' = h"
  by (simp add: getprop_def update_conv)

lemma plain_bcrypt_sound: "bcrypt_sound plain_bcrypt"
  by (simp add: bcrypt_sound_def plain_bcrypt_def)

lemma truncating_bcrypt_sound: "bcrypt_sound truncating_bcrypt"
  by (simp add: bcrypt_sound_def truncating_bcrypt_def)

lemma delete_reserved:
  "AList.delete ''_pw'' (AList.delete ''_id'' d) =
     filter (\<lambda>kv. fst kv \<noteq> ''_id'' \<and> fst kv \<noteq> ''_pw'') d"
  by (induction d) (auto simp add: AList.delete_eq)

lemma unreserved_roundtrip:
  assumes "''_id'' \<notin> fst ` set d" and "''_pw'' \<notin> fst ` set d"
  shows "AList.delete ''_pw'' (AList.delete ''_id''
           (AList.update ''_pw'' h (AList.update ''_id'' i d))) = d"
  using assms by (simp add: delete_update_same delete_update dom_update)

lemma more_than_one:
  "1 < length xs \<Longrightarrow> (case xs of [] \<Rightarrow> a | [x] \<Rightarrow> b x | x # y # zs \<Rightarrow> c) = c"
  by (cases xs; cases "tl xs") auto

section \<open>The handlers on well-formed requests\<close>

lemma split_space_not_Nil: "split_space s \<noteq> []"
  by (induction s) (auto split: list.splits)

lemma split_space_no_space: "CHR '' '' \<notin> set s \<Longrightarrow> split_space s = [s]"
  by (induction s) auto

lemma split_space_append:
  "CHR '' '' \<notin> set a \<Longrightarrow> split_space (a @ CHR '' '' # b) = a # split_space b"
  by (induction a) auto

lemma toLowerCase_keeps_space: "CHR '' '' \<in> set s \<Longrightarrow> CHR '' '' \<in> set (toLowerCase s)"
  by (induction s) (auto simp add: toLowerCase_def)

lemma bearer_scheme_no_space: "toLowerCase scheme = ''bearer'' \<Longrightarrow> CHR '' '' \<notin> set scheme"
  using toLowerCase_keeps_space[of scheme] by auto

lemma Server_getUser_token:
  assumes "decodeURIComponent (params_id req) = Inr uid" and "uid \<noteq> []"
    and "authorization req = Some authValue"
    and "split_space authValue = scheme # authToken # rest"
    and "toLowerCase scheme = ''bearer''" and "authToken \<noteq> []"
  shows "Server_getUser J S now users req =
           (if checkAuthToken J S now authToken then
              (case UserDatabase_getUser users (JStr uid) of
                 Resolved GetNotFound \<Rightarrow> Responded (not_found uid)
               | Resolved (Found result) \<Rightarrow>
                   Responded \<lparr>status = OK, headers = [], sent = JObj result\<rparr>
               | Rejected err \<Rightarrow> Responded internal_server_error
               | Pending \<Rightarrow> NoResponse)
            else Responded (unauthorized
                   (''/users/'' @ uid @ '' requires a bearer authorization header'')))"
proof -
  have "authValue \<noteq> []" using assms(4) by auto
  then show ?thesis
    using assms by (simp add: Server_getUser_def Let_def)
qed

lemma Server_getUser_refused:
  assumes "decodeURIComponent (params_id req) = Inr uid" and "uid \<noteq> []"
    and "authorization req = None \<or>
         (\<exists>authValue. authorization req = Some authValue \<and>
            (case split_space authValue of
               scheme # authToken # rest \<Rightarrow>
                 toLowerCase scheme \<noteq> ''bearer'' \<or> authToken = [] \<or>
                 \<not> checkAuthToken J S now authToken
             | _ \<Rightarrow> True))"
  shows "Server_getUser J S now users req =
           Responded (unauthorized (''/users/'' @ uid @ '' requires a bearer authorization header''))"
proof (cases "authorization req")
  case None
  then show ?thesis using assms(1,2) by (simp add: Server_getUser_def Let_def)
next
  case (Some authValue)
  with assms(3) have
    "case split_space authValue of
       scheme # authToken # rest \<Rightarrow>
         toLowerCase scheme \<noteq> ''bearer'' \<or> authToken = [] \<or> \<not> checkAuthToken J S now authToken
     | _ \<Rightarrow> True"
    by simp
  then show ?thesis
    using assms(1,2) Some
    by (auto simp add: Server_getUser_def Let_def split: list.splits)
qed

lemma Server_createUser_valid:
  assumes "decodeURIComponent (params_id req) = Inr uid" and "uid \<noteq> []"
    and "decodeURIComponent (query_pw req) = Inr password" and "password \<noteq> []"
    and "req_body req = Some d"
  shows "Server_createUser B J S salt now users req =
           (case UserDatabase_createUser B salt users (JStr uid) (JStr password) (Some d) of
              (Resolved result, users') \<Rightarrow>
                if result = AlreadyExists
                then (Responded
                        \<lparr>status = SEE_OTHER,
                         headers = [(''Location'', getRequestBaseUrl S req @ ''users/'' @ uid)],
                         sent = JObj [(''status'', JStr ''EXISTS''),
                                      (''info'', JStr (''user '' @ uid @ '' already exists''))]\<rparr>,
                      users')
                else (Responded
                        \<lparr>status = CREATED,
                         headers = [(''Location'', getRequestBaseUrl S req @ ''users/'' @ uid)],
                         sent = JObj [(''status'', JStr ''CREATED''),
                                      (''authToken'', JStr (createAuthToken J S now uid))]\<rparr>,
                      users')
            | (Rejected err, users') \<Rightarrow> (Responded internal_server_error, users')
            | (Pending, users') \<Rightarrow> (NoResponse, users'))"
  using assms by (simp add: Server_createUser_def Let_def)

lemma Server_logIn_valid:
  assumes "decodeURIComponent (params_id req) = Inr uid" and "uid \<noteq> []"
    and "req_body req = Some body" and "getprop body ''pw'' = JStr password" and "password \<noteq> []"
  shows "Server_logIn B J S now users req =
           (case UserDatabase_checkPassword B users (JStr uid) (JStr password) of
              Resolved NotFound \<Rightarrow> Responded (not_found uid)
            | Resolved Invalid \<Rightarrow>
                Responded (unauthorized
                  (''/users/'' @ uid @ ''/auth requires a valid 'pw' password query parameter''))
            | Resolved Valid \<Rightarrow>
                Responded
                  \<lparr>status = OK, headers = [],
                   sent = JObj [(''status'', JStr ''OK''),
                                (''authToken'', JStr (createAuthToken J S now uid))]\<rparr>
            | Rejected err \<Rightarrow> Responded internal_server_error
            | Pending \<Rightarrow> NoResponse)"
  using assms by (simp add: Server_logIn_def)

lemma token_roundtrip:
  assumes "jwt_contract J"
  shows "checkAuthToken J S t1 (createAuthToken J S t0 uid) = (t1 < t0 + authTimeout S)"
proof -
  have "isl (jwt_verify J (jwt_sign J [(''id'', JStr uid)] authSecret (authTimeout S) t0)
               authSecret (authTimeout S) t1) = (t0 + authTimeout S \<le> t1)"
    using assms unfolding jwt_contract_def by blast
  then show ?thesis
    by (auto simp add: checkAuthToken_def createAuthToken_def Let_def split: sum.splits)
qed

lemma token_shape:
  assumes "jwt_contract J"
  shows "createAuthToken J S t0 uid \<noteq> [] \<and> CHR '' '' \<notin> set (createAuthToken J S t0 uid)"
  using assms unfolding jwt_contract_def createAuthToken_def Let_def by blast

lemma of_unary_unary: "of_unary (unary z) = Some z"
  by (simp add: of_unary_def unary_def)

lemma unary_no_dot: "\<forall>c\<in>set (unary z). c \<noteq> CHR ''.''"
  by (simp add: unary_def)

lemma unary_no_space: "CHR '' '' \<notin> set (unary z)"
  by (simp add: unary_def)

lemma takeWhile_unary: "takeWhile (\<lambda>c. c \<noteq> CHR ''.'') (unary a @ CHR ''.'' # r) = unary a"
  using unary_no_dot[of a] by (simp add: takeWhile_append2)

lemma dropWhile_unary:
  "dropWhile (\<lambda>c. c \<noteq> CHR ''.'') (unary a @ CHR ''.'' # r) = CHR ''.'' # r"
  using unary_no_dot[of a] by (simp add: dropWhile_append2)

lemma unary_jwt_contract: "jwt_contract unary_jwt"
  unfolding jwt_contract_def unary_jwt_def
  by (simp add: takeWhile_unary dropWhile_unary of_unary_unary unary_no_space)

section \<open>Creating an account, then checking its password\<close>

text \<open>
  Claim C1. For every non-empty id, non-empty password and profile object, on a
  collection that holds no document with that id: \<open>createUser\<close> resolves as created, and
  \<open>checkPassword\<close> with the same id and password on the collection it leaves resolves
  as valid. The bcrypt package is assumed to verify a hash against the password it was
  made from.
\<close>

theorem createUser_then_checkPassword_valid:
  assumes "bcrypt_sound B"
    and "uid \<noteq> []" and "password \<noteq> []"
    and "users_find users (JStr uid) = []"
  shows "fst (UserDatabase_createUser B salt users (JStr uid) (JStr password) (Some profile))
           = Resolved Created \<and>
         UserDatabase_checkPassword B
           (snd (UserDatabase_createUser B salt users (JStr uid) (JStr password) (Some profile)))
           (JStr uid) (JStr password) = Resolved Valid"
proof -
  let ?stored = "AList.update ''_pw'' (JStr (bcrypt_hash B password 10 salt))
                   (AList.update ''_id'' (JStr uid) profile)"
  have created: "UserDatabase_createUser B salt users (JStr uid) (JStr password) (Some profile)
                   = (Resolved Created, users @ [?stored])"
    using assms by (simp add: createUser_valid)
  have found: "users_find (users @ [?stored]) (JStr uid) = [?stored]"
    using assms by (simp add: users_find_append stored_doc_id)
  have "bcrypt_compare B password (bcrypt_hash B password 10 salt)"
    using assms(1) by (simp add: bcrypt_sound_def)
  then have "UserDatabase_checkPassword B (users @ [?stored]) (JStr uid) (JStr password)
               = Resolved Valid"
    using assms found by (simp add: checkPassword_valid stored_doc_pw)
  with created show ?thesis by simp
qed

theorem createUser_then_checkPassword_valid_witness:
  "bcrypt_sound plain_bcrypt \<and> ''bob'' \<noteq> [] \<and> ''secret'' \<noteq> [] \<and>
   users_find [] (JStr ''bob'') = [] \<and>
   UserDatabase_checkPassword plain_bcrypt
     (snd (UserDatabase_createUser plain_bcrypt ''salt'' [] (JStr ''bob'') (JStr ''secret'')
             (Some [(''age'', JNum 30)])))
     (JStr ''bob'') (JStr ''secret'') = Resolved Valid"
proof -
  have none: "users_find [] (JStr ''bob'') = []"
    by (simp add: users_find_def)
  show ?thesis
    using createUser_then_checkPassword_valid
            [OF plain_bcrypt_sound, of "''bob''" "''secret''" "[]" "''salt''" "[(''age'', JNum 30)]"]
          plain_bcrypt_sound none
    by simp
qed

section \<open>Fetching a profile from the store\<close>

text \<open>
  Claim C4. When exactly one document is stored under a non-empty id, \<open>getUser\<close>
  resolves with that document without its \<open>_id\<close> and \<open>_pw\<close> entries, every other
  entry kept with its value and in its place. No value that \<open>getUser\<close> resolves
  with, on any collection and for any argument, has an \<open>_id\<close> or a \<open>_pw\<close> entry. A
  profile that uses neither reserved name comes back from \<open>getUser\<close> exactly as it was
  given to \<open>createUser\<close>.
\<close>

theorem getUser_strips_reserved_fields:
  "(uid \<noteq> [] \<and> users_find users (JStr uid) = [d] \<longrightarrow>
      UserDatabase_getUser users (JStr uid) =
        Resolved (Found (filter (\<lambda>kv. fst kv \<noteq> ''_id'' \<and> fst kv \<noteq> ''_pw'') d)))
   \<and> (\<forall>v r. UserDatabase_getUser users v = Resolved (Found r) \<longrightarrow>
          ''_id'' \<notin> fst ` set r \<and> ''_pw'' \<notin> fst ` set r)
   \<and> (uid \<noteq> [] \<and> password \<noteq> [] \<and> users_find users (JStr uid) = [] \<and>
       ''_id'' \<notin> fst ` set profile \<and> ''_pw'' \<notin> fst ` set profile \<longrightarrow>
         UserDatabase_getUser
           (snd (UserDatabase_createUser B salt users (JStr uid) (JStr password) (Some profile)))
           (JStr uid) = Resolved (Found profile))"
proof (intro conjI allI impI)
  assume "uid \<noteq> [] \<and> users_find users (JStr uid) = [d]"
  then show "UserDatabase_getUser users (JStr uid) =
        Resolved (Found (filter (\<lambda>kv. fst kv \<noteq> ''_id'' \<and> fst kv \<noteq> ''_pw'') d))"
    by (simp add: getUser_valid delete_reserved)
next
  fix v r
  assume "UserDatabase_getUser users v = Resolved (Found r)"
  then obtain doc where "r = AList.delete ''_pw'' (AList.delete ''_id'' doc)"
    by (auto simp add: UserDatabase_getUser_def split: if_splits jsval.splits list.splits)
  then have r: "r = filter (\<lambda>kv. fst kv \<noteq> ''_id'' \<and> fst kv \<noteq> ''_pw'') doc"
    by (simp add: delete_reserved)
  show "''_id'' \<notin> fst ` set r" using r by auto
  show "''_pw'' \<notin> fst ` set r" using r by auto
next
  assume a: "uid \<noteq> [] \<and> password \<noteq> [] \<and> users_find users (JStr uid) = [] \<and>
       ''_id'' \<notin> fst ` set profile \<and> ''_pw'' \<notin> fst ` set profile"
  let ?stored = "AList.update ''_pw'' (JStr (bcrypt_hash B password 10 salt))
                   (AList.update ''_id'' (JStr uid) profile)"
  have "UserDatabase_createUser B salt users (JStr uid) (JStr password) (Some profile)
          = (Resolved Created, users @ [?stored])"
    using a by (simp add: createUser_valid)
  moreover have "users_find (users @ [?stored]) (JStr uid) = [?stored]"
    using a by (simp add: users_find_append stored_doc_id)
  moreover have "AList.delete ''_pw'' (AList.delete ''_id'' ?stored) = profile"
    using a by (simp add: unreserved_roundtrip)
  ultimately show "UserDatabase_getUser
           (snd (UserDatabase_createUser B salt users (JStr uid) (JStr password) (Some profile)))
           (JStr uid) = Resolved (Found profile)"
    using a by (simp add: getUser_valid)
qed

theorem getUser_strips_reserved_fields_witness:
  "users_find [[(''age'', JNum 30), (''_id'', JStr ''bob''), (''_pw'', JStr ''secret'')]]
     (JStr ''bob'') = [[(''age'', JNum 30), (''_id'', JStr ''bob''), (''_pw'', JStr ''secret'')]] \<and>
   UserDatabase_getUser
     [[(''age'', JNum 30), (''_id'', JStr ''bob''), (''_pw'', JStr ''secret'')]] (JStr ''bob'')
     = Resolved (Found [(''age'', JNum 30)]) \<and>
   users_find [] (JStr ''bob'') = [] \<and>
   UserDatabase_getUser
     (snd (UserDatabase_createUser plain_bcrypt ''salt'' [] (JStr ''bob'') (JStr ''secret'')
             (Some [(''age'', JNum 30)])))
     (JStr ''bob'') = Resolved (Found [(''age'', JNum 30)])"
proof -
  let ?d = "[(''age'', JNum 30), (''_id'', JStr ''bob''), (''_pw'', JStr ''secret'')]"
  have one: "users_find [?d] (JStr ''bob'') = [?d]"
    by (simp add: users_find_def)
  have none: "users_find [] (JStr ''bob'') = []"
    by (simp add: users_find_def)
  show ?thesis
    using getUser_strips_reserved_fields
            [of "''bob''" "[?d]" ?d "''secret''" "[(''age'', JNum 30)]" plain_bcrypt "''salt''"]
          getUser_strips_reserved_fields
            [of "''bob''" "[]" ?d "''secret''" "[(''age'', JNum 30)]" plain_bcrypt "''salt''"]
          one none
    by simp
qed

section \<open>Creating the same account twice\<close>

text \<open>
  Claim C5, as amended. For every non-empty id and non-empty passwords \<open>p1\<close> and
  \<open>p2\<close>, on a collection that holds no document with that id: the first \<open>createUser\<close>
  resolves as created and the second as already existing; the second leaves the
  collection as the first left it, so the stored hash is still the one made from
  \<open>p1\<close>. \<open>checkPassword\<close> afterwards resolves as valid for \<open>p1\<close>, and for
  \<open>p2\<close> it resolves as \<open>bcrypt.compare\<close> judges \<open>p2\<close> against the hash of
  \<open>p1\<close>: invalid exactly when the package refuses it. The bcrypt package is assumed
  to verify a hash against the password it was made from, and nothing more.
\<close>

theorem createUser_twice:
  assumes "bcrypt_sound B"
    and "uid \<noteq> []" and "p1 \<noteq> []" and "p2 \<noteq> []"
    and "users_find users (JStr uid) = []"
  shows "let first = UserDatabase_createUser B salt1 users (JStr uid) (JStr p1) (Some profile1);
             second = UserDatabase_createUser B salt2 (snd first) (JStr uid) (JStr p2) (Some profile2)
         in fst first = Resolved Created \<and> fst second = Resolved AlreadyExists \<and>
            snd second = snd first \<and>
            UserDatabase_checkPassword B (snd second) (JStr uid) (JStr p1) = Resolved Valid \<and>
            UserDatabase_checkPassword B (snd second) (JStr uid) (JStr p2) =
              (if bcrypt_compare B p2 (bcrypt_hash B p1 10 salt1) then Resolved Valid
               else Resolved Invalid)"
proof -
  let ?stored = "AList.update ''_pw'' (JStr (bcrypt_hash B p1 10 salt1))
                   (AList.update ''_id'' (JStr uid) profile1)"
  have first: "UserDatabase_createUser B salt1 users (JStr uid) (JStr p1) (Some profile1)
                 = (Resolved Created, users @ [?stored])"
    using assms by (simp add: createUser_valid)
  have found: "users_find (users @ [?stored]) (JStr uid) = [?stored]"
    using assms by (simp add: users_find_append stored_doc_id)
  have second:
    "UserDatabase_createUser B salt2 (users @ [?stored]) (JStr uid) (JStr p2) (Some profile2)
       = (Resolved AlreadyExists, users @ [?stored])"
    using assms found by (simp add: createUser_valid)
  have own: "bcrypt_compare B p1 (bcrypt_hash B p1 10 salt1)"
    using assms(1) by (simp add: bcrypt_sound_def)
  have check:
    "q \<noteq> [] \<Longrightarrow> UserDatabase_checkPassword B (users @ [?stored]) (JStr uid) (JStr q)
       = (if bcrypt_compare B q (bcrypt_hash B p1 10 salt1) then Resolved Valid
          else Resolved Invalid)" for q
    using assms(2) found by (simp add: checkPassword_valid stored_doc_pw)
  show ?thesis
    using first second check[of p1] check[of p2] own assms(3,4) by (simp add: Let_def)
qed

theorem createUser_twice_witness:
  "bcrypt_sound plain_bcrypt \<and> users_find [] (JStr ''bob'') = [] \<and>
   (let first = UserDatabase_createUser plain_bcrypt ''s1'' [] (JStr ''bob'') (JStr ''secret'')
                  (Some [(''age'', JNum 30)]);
        second = UserDatabase_createUser plain_bcrypt ''s2'' (snd first) (JStr ''bob'')
                   (JStr ''other'') (Some [(''age'', JNum 31)])
    in fst first = Resolved Created \<and> fst second = Resolved AlreadyExists \<and>
       snd second = snd first \<and>
       UserDatabase_checkPassword plain_bcrypt (snd second) (JStr ''bob'') (JStr ''secret'')
         = Resolved Valid \<and>
       UserDatabase_checkPassword plain_bcrypt (snd second) (JStr ''bob'') (JStr ''other'')
         = Resolved Invalid)"
proof -
  have none: "users_find [] (JStr ''bob'') = []"
    by (simp add: users_find_def)
  have refused:
    "(if bcrypt_compare plain_bcrypt ''other'' (bcrypt_hash plain_bcrypt ''secret'' 10 ''s1'')
      then Resolved Valid else Resolved Invalid) = Resolved Invalid"
    by (simp add: plain_bcrypt_def)
  have "let first = UserDatabase_createUser plain_bcrypt ''s1'' [] (JStr ''bob'') (JStr ''secret'')
                  (Some [(''age'', JNum 30)]);
        second = UserDatabase_createUser plain_bcrypt ''s2'' (snd first) (JStr ''bob'')
                   (JStr ''other'') (Some [(''age'', JNum 31)])
    in fst first = Resolved Created \<and> fst second = Resolved AlreadyExists \<and>
       snd second = snd first \<and>
       UserDatabase_checkPassword plain_bcrypt (snd second) (JStr ''bob'') (JStr ''secret'')
         = Resolved Valid \<and>
       UserDatabase_checkPassword plain_bcrypt (snd second) (JStr ''bob'') (JStr ''other'')
         = (if bcrypt_compare plain_bcrypt ''other'' (bcrypt_hash plain_bcrypt ''secret'' 10 ''s1'')
            then Resolved Valid else Resolved Invalid)"
    by (rule createUser_twice [OF plain_bcrypt_sound _ _ _ none]) simp_all
  with plain_bcrypt_sound none show ?thesis
    unfolding Let_def refused by blast
qed

text \<open>
  As first stated the claim fails twice over. With an empty second password the second
  call is rejected for its parameters and does not resolve as already existing. And a
  second password that differs from the first may still be verified: under a bcrypt that
  reads only the first 72 bytes, as the package does, two passwords that differ in
  their 73rd byte are both valid for the stored hash.
\<close>

theorem createUser_twice_counterexample:
  "users_find [] (JStr ''bob'') = [] \<and>
   fst (UserDatabase_createUser plain_bcrypt ''s1'' [] (JStr ''bob'') (JStr ''secret'') (Some []))
     = Resolved Created \<and>
   fst (UserDatabase_createUser plain_bcrypt ''s2''
          (snd (UserDatabase_createUser plain_bcrypt ''s1'' [] (JStr ''bob'') (JStr ''secret'')
                  (Some [])))
          (JStr ''bob'') (JStr '''') (Some []))
     = Rejected InvalidParameters \<and>
   fst (UserDatabase_createUser plain_bcrypt ''s2''
          (snd (UserDatabase_createUser plain_bcrypt ''s1'' [] (JStr ''bob'') (JStr ''secret'')
                  (Some [])))
          (JStr ''bob'') (JStr '''') (Some []))
     \<noteq> Resolved AlreadyExists \<and>
   bcrypt_sound truncating_bcrypt \<and>
   replicate 72 (CHR ''a'') @ ''Y'' \<noteq> replicate 72 (CHR ''a'') @ ''X'' \<and>
   fst (UserDatabase_createUser truncating_bcrypt ''s2''
          (snd (UserDatabase_createUser truncating_bcrypt ''s1'' [] (JStr ''bob'')
                  (JStr (replicate 72 (CHR ''a'') @ ''X'')) (Some [])))
          (JStr ''bob'') (JStr (replicate 72 (CHR ''a'') @ ''Y'')) (Some []))
     = Resolved AlreadyExists \<and>
   UserDatabase_checkPassword truncating_bcrypt
     (snd (UserDatabase_createUser truncating_bcrypt ''s2''
             (snd (UserDatabase_createUser truncating_bcrypt ''s1'' [] (JStr ''bob'')
                     (JStr (replicate 72 (CHR ''a'') @ ''X'')) (Some [])))
             (JStr ''bob'') (JStr (replicate 72 (CHR ''a'') @ ''Y'')) (Some [])))
     (JStr ''bob'') (JStr (replicate 72 (CHR ''a'') @ ''Y''))
     = Resolved Valid"
proof -
  let ?p1 = "replicate 72 (CHR ''a'') @ ''X''"
  let ?p2 = "replicate 72 (CHR ''a'') @ ''Y''"
  let ?stored = "[(''_id'', JStr ''bob''), (''_pw'', JStr (replicate 72 (CHR ''a'')))]"
  have none: "users_find [] (JStr ''bob'') = []"
    by (simp add: users_find_def)
  have empty:
    "UserDatabase_createUser plain_bcrypt ''s2'' us (JStr ''bob'') (JStr '''') (Some [])
       = (Rejected InvalidParameters, us)" for us
    by (simp add: UserDatabase_createUser_def)
  have plain_first:
    "fst (UserDatabase_createUser plain_bcrypt ''s1'' [] (JStr ''bob'') (JStr ''secret'') (Some []))
       = Resolved Created"
    by (simp add: createUser_valid none)
  have differ: "?p2 \<noteq> ?p1"
    by simp
  have first:
    "UserDatabase_createUser truncating_bcrypt ''s1'' [] (JStr ''bob'') (JStr ?p1) (Some [])
       = (Resolved Created, [?stored])"
    by (simp add: createUser_valid none truncating_bcrypt_def)
  have found: "users_find [?stored] (JStr ''bob'') = [?stored]"
    by (simp add: users_find_def)
  have second:
    "UserDatabase_createUser truncating_bcrypt ''s2'' [?stored] (JStr ''bob'') (JStr ?p2) (Some [])
       = (Resolved AlreadyExists, [?stored])"
    by (simp add: createUser_valid found)
  have check:
    "UserDatabase_checkPassword truncating_bcrypt [?stored] (JStr ''bob'') (JStr ?p2)
       = Resolved Valid"
    by (simp add: checkPassword_valid found getprop_def truncating_bcrypt_def)
  show ?thesis
    using none empty plain_first differ first second check truncating_bcrypt_sound
    by simp
qed

section \<open>Tokens and their lifetime\<close>

text \<open>
  Claim C6, as amended. A token minted by \<open>createAuthToken\<close> passes
  \<open>checkAuthToken\<close> exactly while the clock reading, in whole seconds, is less than
  \<open>authTimeout\<close> above the reading at which it was minted. In elapsed time: the token
  passes whenever at most \<open>authTimeout - 1\<close> seconds have passed since it was minted,
  and fails whenever \<open>authTimeout\<close> seconds or more have passed; in the second between
  the two the answer depends on the fraction of a second at which it was minted. Times
  \<open>ms0\<close> and \<open>ms1\<close> are in milliseconds; the package is assumed to keep its
  contract.
\<close>

theorem token_valid_until_timeout:
  assumes "jwt_contract J"
  shows "checkAuthToken J S (clock_reading ms1) (createAuthToken J S (clock_reading ms0) uid)
           = (clock_reading ms1 - clock_reading ms0 < authTimeout S)
         \<and> (ms1 - ms0 \<le> 1000 * (authTimeout S - 1) \<longrightarrow>
              checkAuthToken J S (clock_reading ms1)
                (createAuthToken J S (clock_reading ms0) uid))
         \<and> (1000 * authTimeout S \<le> ms1 - ms0 \<longrightarrow>
              \<not> checkAuthToken J S (clock_reading ms1)
                  (createAuthToken J S (clock_reading ms0) uid))"
proof -
  have readings:
    "checkAuthToken J S (clock_reading ms1) (createAuthToken J S (clock_reading ms0) uid)
       = (clock_reading ms1 - clock_reading ms0 < authTimeout S)"
    using token_roundtrip [OF assms, of S "clock_reading ms1" "clock_reading ms0" uid] by auto
  have early: "clock_reading ms1 - clock_reading ms0 < authTimeout S"
    if "ms1 - ms0 \<le> 1000 * (authTimeout S - 1)"
  proof -
    have "ms1 \<le> ms0 + 1000 * (authTimeout S - 1)"
      using that by simp
    then have "ms1 div 1000 \<le> (ms0 + 1000 * (authTimeout S - 1)) div 1000"
      by (rule zdiv_mono1) simp
    also have "\<dots> = ms0 div 1000 + (authTimeout S - 1)"
      by simp
    finally show ?thesis
      by (simp add: clock_reading_def)
  qed
  have late: "authTimeout S \<le> clock_reading ms1 - clock_reading ms0"
    if "1000 * authTimeout S \<le> ms1 - ms0"
  proof -
    have "ms0 + 1000 * authTimeout S \<le> ms1"
      using that by simp
    then have "(ms0 + 1000 * authTimeout S) div 1000 \<le> ms1 div 1000"
      by (rule zdiv_mono1) simp
    moreover have "(ms0 + 1000 * authTimeout S) div 1000 = ms0 div 1000 + authTimeout S"
      by simp
    ultimately show ?thesis
      by (simp add: clock_reading_def)
  qed
  show ?thesis
    using readings early late by auto
qed

theorem token_valid_until_timeout_witness:
  "jwt_contract unary_jwt \<and>
   checkAuthToken unary_jwt \<lparr>port = 8443, authTimeout = 60\<rparr> (clock_reading 1059400)
     (createAuthToken unary_jwt \<lparr>port = 8443, authTimeout = 60\<rparr> (clock_reading 1000500)
        ''alice'') \<and>
   \<not> checkAuthToken unary_jwt \<lparr>port = 8443, authTimeout = 60\<rparr> (clock_reading 1060500)
     (createAuthToken unary_jwt \<lparr>port = 8443, authTimeout = 60\<rparr> (clock_reading 1000500)
        ''alice'')"
proof -
  let ?S = "\<lparr>port = 8443, authTimeout = 60\<rparr>"
  have early: "checkAuthToken unary_jwt ?S (clock_reading 1059400)
                 (createAuthToken unary_jwt ?S (clock_reading 1000500) ''alice'')"
    by (rule token_valid_until_timeout
               [OF unary_jwt_contract, THEN conjunct2, THEN conjunct1, rule_format])
       simp
  have late: "\<not> checkAuthToken unary_jwt ?S (clock_reading 1060500)
                 (createAuthToken unary_jwt ?S (clock_reading 1000500) ''alice'')"
    by (rule token_valid_until_timeout
               [OF unary_jwt_contract, THEN conjunct2, THEN conjunct2, rule_format])
       simp
  show ?thesis
    using early late unary_jwt_contract by simp
qed

text \<open>
  As first stated, valid within \<open>authTimeout\<close> seconds and refused once more than
  \<open>authTimeout\<close> seconds have passed, the claim fails. With \<open>authTimeout\<close> 3, a token
  minted 900 milliseconds into a second is refused 2100 milliseconds later, well within
  3 seconds; and a token minted on the second is refused exactly 3 seconds later, when
  no more than 3 seconds have passed.
\<close>

theorem token_valid_until_timeout_counterexample:
  "jwt_contract unary_jwt \<and>
   (3000 :: int) - 900 < 1000 * authTimeout \<lparr>port = 8443, authTimeout = 3\<rparr> \<and>
   \<not> checkAuthToken unary_jwt \<lparr>port = 8443, authTimeout = 3\<rparr> (clock_reading 3000)
       (createAuthToken unary_jwt \<lparr>port = 8443, authTimeout = 3\<rparr> (clock_reading 900) ''alice'') \<and>
   (3000 :: int) - 0 = 1000 * authTimeout \<lparr>port = 8443, authTimeout = 3\<rparr> \<and>
   \<not> checkAuthToken unary_jwt \<lparr>port = 8443, authTimeout = 3\<rparr> (clock_reading 3000)
       (createAuthToken unary_jwt \<lparr>port = 8443, authTimeout = 3\<rparr> (clock_reading 0) ''alice'')"
proof -
  let ?S = "\<lparr>port = 8443, authTimeout = 3\<rparr>"
  have "\<not> checkAuthToken unary_jwt ?S (clock_reading 3000)
          (createAuthToken unary_jwt ?S (clock_reading ms0) ''alice'')"
    if "ms0 = 900 \<or> ms0 = 0" for ms0
    using that
      token_roundtrip [OF unary_jwt_contract, of ?S "clock_reading 3000" "clock_reading ms0" "''alice''"]
    by (auto simp add: clock_reading_def)
  then show ?thesis
    using unary_jwt_contract by simp
qed

section \<open>Fetching a profile with a token\<close>

text \<open>
  Claim C10. On a fetch-profile request that reaches the header check (its id decodes to
  a non-empty string), an Authorization header made of a scheme that is \<open>bearer\<close>
  once lowercased, one space and a non-empty token is not refused at the scheme check:
  what the handler answers is decided by \<open>checkAuthToken\<close> on that token.
\<close>

theorem bearer_scheme_case_insensitive:
  assumes "decodeURIComponent (params_id req) = Inr uid" and "uid \<noteq> []"
    and "authorization req = Some (scheme @ '' '' @ authToken)"
    and "toLowerCase scheme = ''bearer''"
    and "authToken \<noteq> []" and "CHR '' '' \<notin> set authToken"
  shows "Server_getUser J S now users req =
           (if checkAuthToken J S now authToken then
              (case UserDatabase_getUser users (JStr uid) of
                 Resolved GetNotFound \<Rightarrow> Responded (not_found uid)
               | Resolved (Found result) \<Rightarrow>
                   Responded \<lparr>status = OK, headers = [], sent = JObj result\<rparr>
               | Rejected err \<Rightarrow> Responded internal_server_error
               | Pending \<Rightarrow> NoResponse)
            else Responded (unauthorized
                   (''/users/'' @ uid @ '' requires a bearer authorization header'')))"
proof -
  have "split_space (scheme @ '' '' @ authToken) = [scheme, authToken]"
    using assms(4,6) by (simp add: split_space_append split_space_no_space bearer_scheme_no_space)
  then show ?thesis
    using assms by (simp add: Server_getUser_token)
qed

theorem bearer_scheme_case_insensitive_witness:
  "decodeURIComponent (Some ''bob'') = Inr ''bob'' \<and>
   toLowerCase ''BEARER'' = ''bearer'' \<and> toLowerCase ''Bearer'' = ''bearer'' \<and>
   toLowerCase ''bearer'' = ''bearer'' \<and>
   checkAuthToken unary_jwt \<lparr>port = 8443, authTimeout = 3\<rparr> 4 ''+11.+11111'' \<and>
   Server_getUser unary_jwt \<lparr>port = 8443, authTimeout = 3\<rparr> 4
     [[(''age'', JNum 30), (''_id'', JStr ''bob''), (''_pw'', JStr ''secret'')]]
     \<lparr>params_id = Some ''bob'', query_pw = None, req_body = None,
      authorization = Some ''BEARER +11.+11111'', protocol = ''https'', hostname = ''localhost''\<rparr>
   = Responded \<lparr>status = OK, headers = [], sent = JObj [(''age'', JNum 30)]\<rparr>"
proof -
  let ?S = "\<lparr>port = 8443, authTimeout = 3\<rparr>"
  let ?users = "[[(''age'', JNum 30), (''_id'', JStr ''bob''), (''_pw'', JStr ''secret'')]]"
  let ?req = "\<lparr>params_id = Some ''bob'', query_pw = None, req_body = None,
      authorization = Some ''BEARER +11.+11111'', protocol = ''https'', hostname = ''localhost''\<rparr>"
  have id: "decodeURIComponent (params_id ?req) = Inr ''bob''"
    by (simp add: decodeURIComponent_def)
  have lower: "toLowerCase ''BEARER'' = ''bearer''" "toLowerCase ''Bearer'' = ''bearer''"
    "toLowerCase ''bearer'' = ''bearer''"
    by (simp_all add: toLowerCase_def char_of_eq_iff)
  have token: "checkAuthToken unary_jwt ?S 4 ''+11.+11111''"
    by (simp add: checkAuthToken_def unary_jwt_def of_unary_def authSecret_def)
  have store: "UserDatabase_getUser ?users (JStr ''bob'') = Resolved (Found [(''age'', JNum 30)])"
    by (simp add: UserDatabase_getUser_def users_find_def)
  have "Server_getUser unary_jwt ?S 4 ?users ?req =
          Responded \<lparr>status = OK, headers = [], sent = JObj [(''age'', JNum 30)]\<rparr>"
    using bearer_scheme_case_insensitive
            [of ?req "''bob''" "''BEARER''" "''+11.+11111''" unary_jwt ?S 4 ?users]
          id lower(1) token store
    by simp
  with id lower token show ?thesis by simp
qed

text \<open>
  Claim C2. Let a token be minted by \<open>createAuthToken\<close> at time \<open>t0\<close> for any id
  \<open>uidA\<close>, and let exactly one document be stored under the non-empty id \<open>uidB\<close>. A
  fetch-profile request for \<open>uidB\<close> that presents the token as \<open>Bearer\<close> before
  \<open>authTimeout\<close> seconds have passed is answered with status 200 and the profile of
  \<open>uidB\<close>, its \<open>_id\<close> and \<open>_pw\<close> entries removed: the id the token was minted for
  is not compared with the id of the request.
\<close>

theorem any_token_reads_any_profile:
  assumes "jwt_contract J"
    and "now - t0 < authTimeout S"
    and "uidB \<noteq> []" and "users_find users (JStr uidB) = [d]"
    and "decodeURIComponent (params_id req) = Inr uidB"
    and "authorization req = Some (''Bearer '' @ createAuthToken J S t0 uidA)"
  shows "Server_getUser J S now users req =
           Responded \<lparr>status = OK, headers = [],
                      sent = JObj (filter (\<lambda>kv. fst kv \<noteq> ''_id'' \<and> fst kv \<noteq> ''_pw'') d)\<rparr>"
proof -
  let ?token = "createAuthToken J S t0 uidA"
  have shape: "?token \<noteq> []" "CHR '' '' \<notin> set ?token"
    using token_shape [OF assms(1)] by simp_all
  then have split: "split_space (''Bearer '' @ ?token) = ''Bearer'' # ?token # []"
    using split_space_append [of "''Bearer''" ?token] by (simp add: split_space_no_space)
  have lower: "toLowerCase ''Bearer'' = ''bearer''"
    by (simp add: toLowerCase_def char_of_eq_iff)
  have valid: "checkAuthToken J S now ?token"
    using token_roundtrip [OF assms(1), of S now t0 uidA] assms(2) by simp
  have "UserDatabase_getUser users (JStr uidB) =
          Resolved (Found (filter (\<lambda>kv. fst kv \<noteq> ''_id'' \<and> fst kv \<noteq> ''_pw'') d))"
    using assms(3,4) by (simp add: getUser_valid delete_reserved)
  then show ?thesis
    using Server_getUser_token [OF assms(5) assms(3) assms(6) split lower shape(1), of J S now users]
          valid
    by simp
qed

theorem any_token_reads_any_profile_witness:
  "jwt_contract unary_jwt \<and>
   decodeURIComponent (Some ''bob'') = Inr ''bob'' \<and>
   users_find [[(''age'', JNum 30), (''_id'', JStr ''bob''), (''_pw'', JStr ''secret'')]]
     (JStr ''bob'') = [[(''age'', JNum 30), (''_id'', JStr ''bob''), (''_pw'', JStr ''secret'')]] \<and>
   Server_getUser unary_jwt \<lparr>port = 8443, authTimeout = 60\<rparr> 1030
     [[(''age'', JNum 30), (''_id'', JStr ''bob''), (''_pw'', JStr ''secret'')]]
     \<lparr>params_id = Some ''bob'', query_pw = None, req_body = None,
      authorization = Some (''Bearer '' @
        createAuthToken unary_jwt \<lparr>port = 8443, authTimeout = 60\<rparr> 1000 ''alice''),
      protocol = ''https'', hostname = ''localhost''\<rparr>
   = Responded \<lparr>status = OK, headers = [], sent = JObj [(''age'', JNum 30)]\<rparr>"
proof -
  let ?S = "\<lparr>port = 8443, authTimeout = 60\<rparr>"
  let ?d = "[(''age'', JNum 30), (''_id'', JStr ''bob''), (''_pw'', JStr ''secret'')]"
  let ?req = "\<lparr>params_id = Some ''bob'', query_pw = None, req_body = None,
      authorization = Some (''Bearer '' @ createAuthToken unary_jwt ?S 1000 ''alice''),
      protocol = ''https'', hostname = ''localhost''\<rparr>"
  have id: "decodeURIComponent (Some ''bob'') = Inr ''bob''"
    by (simp add: decodeURIComponent_def)
  have one: "users_find [?d] (JStr ''bob'') = [?d]"
    by (simp add: users_find_def)
  have "Server_getUser unary_jwt ?S 1030 [?d] ?req =
          Responded \<lparr>status = OK, headers = [],
            sent = JObj (filter (\<lambda>kv. fst kv \<noteq> ''_id'' \<and> fst kv \<noteq> ''_pw'') ?d)\<rparr>"
    by (rule any_token_reads_any_profile [OF unary_jwt_contract, where ?t0.0 = 1000 and uidA = "''alice''"])
       (simp_all add: id one)
  with unary_jwt_contract id one show ?thesis by simp
qed

section \<open>Requests without a valid credential\<close>

text \<open>
  On a fetch-profile request whose id decodes to a non-empty string, the handler
  answers 401 whenever the Authorization header is absent, has no space and so no token
  part, has an empty token after the scheme, has a scheme that is not \<open>bearer\<close> once
  lowercased, or carries a token on which \<open>jwt.verify\<close> throws. An error thrown by
  \<open>jwt.verify\<close> makes \<open>checkAuthToken\<close> return false.
\<close>

lemma getUser_refuses_without_credential:
  assumes "decodeURIComponent (params_id req) = Inr uid" and "uid \<noteq> []"
    and "authorization req = None
         \<or> (\<exists>authValue. authorization req = Some authValue \<and> CHR '' '' \<notin> set authValue)
         \<or> (\<exists>scheme rest. authorization req = Some (scheme @ '' '' @ rest) \<and>
               CHR '' '' \<notin> set scheme \<and> (rest = [] \<or> (\<exists>r. rest = CHR '' '' # r)))
         \<or> (\<exists>scheme rest. authorization req = Some (scheme @ '' '' @ rest) \<and>
               CHR '' '' \<notin> set scheme \<and> toLowerCase scheme \<noteq> ''bearer'')
         \<or> (\<exists>scheme authToken rest err.
               authorization req = Some (scheme @ '' '' @ authToken @ rest) \<and>
               CHR '' '' \<notin> set scheme \<and> CHR '' '' \<notin> set authToken \<and>
               (rest = [] \<or> (\<exists>r. rest = CHR '' '' # r)) \<and>
               jwt_verify J authToken authSecret (authTimeout S) now = Inl err)"
  shows "Server_getUser J S now users req =
           Responded (unauthorized (''/users/'' @ uid @ '' requires a bearer authorization header''))
         \<and> status (unauthorized (''/users/'' @ uid @ '' requires a bearer authorization header''))
             = 401
         \<and> (\<forall>token err. jwt_verify J token authSecret (authTimeout S) now = Inl err \<longrightarrow>
               checkAuthToken J S now token = False)"
proof -
  have caught: "checkAuthToken J S now token = False"
    if "jwt_verify J token authSecret (authTimeout S) now = Inl err" for token err
    using that by (simp add: checkAuthToken_def)
  have "authorization req = None \<or>
         (\<exists>authValue. authorization req = Some authValue \<and>
            (case split_space authValue of
               scheme # authToken # rest \<Rightarrow>
                 toLowerCase scheme \<noteq> ''bearer'' \<or> authToken = [] \<or>
                 \<not> checkAuthToken J S now authToken
             | _ \<Rightarrow> True))"
    using assms(3)
  proof (elim disjE exE conjE)
    assume "authorization req = None"
    then show ?thesis by simp
  next
    fix authValue
    assume "authorization req = Some authValue" and "CHR '' '' \<notin> set authValue"
    then show ?thesis by (simp add: split_space_no_space)
  next
    fix scheme rest
    assume "authorization req = Some (scheme @ '' '' @ rest)" and "CHR '' '' \<notin> set scheme"
      and "rest = []"
    then show ?thesis by (simp add: split_space_append)
  next
    fix scheme rest r
    assume "authorization req = Some (scheme @ '' '' @ rest)" and "CHR '' '' \<notin> set scheme"
      and "rest = CHR '' '' # r"
    then show ?thesis by (simp add: split_space_append)
  next
    fix scheme rest
    assume "authorization req = Some (scheme @ '' '' @ rest)" and "CHR '' '' \<notin> set scheme"
      and "toLowerCase scheme \<noteq> ''bearer''"
    then show ?thesis
      using split_space_not_Nil [of rest]
      by (cases "split_space rest") (simp_all add: split_space_append)
  next
    fix scheme authToken rest err
    assume "authorization req = Some (scheme @ '' '' @ authToken @ rest)"
      and "CHR '' '' \<notin> set scheme" and "CHR '' '' \<notin> set authToken" and "rest = []"
      and "jwt_verify J authToken authSecret (authTimeout S) now = Inl err"
    then show ?thesis
      by (simp add: split_space_append split_space_no_space caught)
  next
    fix scheme authToken rest err r
    assume "authorization req = Some (scheme @ '' '' @ authToken @ rest)"
      and "CHR '' '' \<notin> set scheme" and "CHR '' '' \<notin> set authToken" and "rest = CHR '' '' # r"
      and "jwt_verify J authToken authSecret (authTimeout S) now = Inl err"
    then show ?thesis
      by (simp add: split_space_append caught)
  qed
  then have "Server_getUser J S now users req =
           Responded (unauthorized (''/users/'' @ uid @ '' requires a bearer authorization header''))"
    by (rule Server_getUser_refused [OF assms(1,2)])
  moreover have
    "status (unauthorized (''/users/'' @ uid @ '' requires a bearer authorization header'')) = 401"
    by (simp add: unauthorized_def)
  ultimately show ?thesis
    using caught by blast
qed

text \<open>
  Claim C7 says that every fetch-profile request whose Authorization header is absent,
  has no token, has another scheme or carries a bad token is answered 401 and never
  500. The code does otherwise when the id of the request is a lone percent sign, as it
  is for the path \<open>/users/%25\<close>: the handler decodes the id a second time before it
  looks at the header, and \<open>decodeURIComponent\<close> throws. Whatever the header, the
  handler sends no answer of its own, and Express answers the uncaught error with 500.
\<close>

theorem getUser_malformed_id_throws:
  assumes "params_id req = Some ''%''"
  shows "Server_getUser J S now users req = Threw URIError"
proof -
  have "decodeURIComponent (Some ''%'') = Inl URIError"
    by (simp add: decodeURIComponent_def)
  then show ?thesis
    using assms by (simp add: Server_getUser_def)
qed

theorem getUser_malformed_id_throws_witness:
  "authorization
     \<lparr>params_id = Some ''%'', query_pw = None, req_body = None,
      authorization = None, protocol = ''https'', hostname = ''localhost''\<rparr> = None \<and>
   Server_getUser unary_jwt \<lparr>port = 8443, authTimeout = 60\<rparr> 1000 []
     \<lparr>params_id = Some ''%'', query_pw = None, req_body = None,
      authorization = None, protocol = ''https'', hostname = ''localhost''\<rparr>
     = Threw URIError"
proof -
  have "Server_getUser unary_jwt \<lparr>port = 8443, authTimeout = 60\<rparr> 1000 []
     \<lparr>params_id = Some ''%'', query_pw = None, req_body = None,
      authorization = None, protocol = ''https'', hostname = ''localhost''\<rparr>
     = Threw URIError"
    by (rule getUser_malformed_id_throws) simp
  then show ?thesis
    by simp
qed

section \<open>An id that is not in the collection\<close>

text \<open>
  Claim C8, as amended. For every non-empty id under which the collection holds no
  document: \<open>checkPassword\<close> resolves as not found for every non-empty password, and
  \<open>getUser\<close> resolves as not found. A log-in request for that id with a non-empty
  string password, and a fetch-profile request for that id with a token that verifies,
  are both answered 404.
\<close>

theorem unknown_id_not_found:
  assumes "uid \<noteq> []" and "users_find users (JStr uid) = []"
  shows "(\<forall>B password. password \<noteq> [] \<longrightarrow>
            UserDatabase_checkPassword B users (JStr uid) (JStr password) = Resolved NotFound)
       \<and> UserDatabase_getUser users (JStr uid) = Resolved GetNotFound
       \<and> (\<forall>B J S now req body password.
            decodeURIComponent (params_id req) = Inr uid \<and> req_body req = Some body \<and>
            getprop body ''pw'' = JStr password \<and> password \<noteq> [] \<longrightarrow>
              Server_logIn B J S now users req = Responded (not_found uid))
       \<and> (\<forall>J S now req scheme authToken.
            decodeURIComponent (params_id req) = Inr uid \<and>
            authorization req = Some (scheme @ '' '' @ authToken) \<and>
            toLowerCase scheme = ''bearer'' \<and> authToken \<noteq> [] \<and> CHR '' '' \<notin> set authToken \<and>
            checkAuthToken J S now authToken \<longrightarrow>
              Server_getUser J S now users req = Responded (not_found uid))
       \<and> status (not_found uid) = 404"
proof (intro conjI allI impI)
  fix B password
  assume "password \<noteq> ([] :: string)"
  then show "UserDatabase_checkPassword B users (JStr uid) (JStr password) = Resolved NotFound"
    using assms by (simp add: checkPassword_valid)
next
  show "UserDatabase_getUser users (JStr uid) = Resolved GetNotFound"
    using assms by (simp add: getUser_valid)
next
  fix B J S now and req :: request and body password
  assume a: "decodeURIComponent (params_id req) = Inr uid \<and> req_body req = Some body \<and>
            getprop body ''pw'' = JStr password \<and> password \<noteq> []"
  then have "Server_logIn B J S now users req =
           (case UserDatabase_checkPassword B users (JStr uid) (JStr password) of
              Resolved NotFound \<Rightarrow> Responded (not_found uid)
            | Resolved Invalid \<Rightarrow>
                Responded (unauthorized
                  (''/users/'' @ uid @ ''/auth requires a valid 'pw' password query parameter''))
            | Resolved Valid \<Rightarrow>
                Responded
                  \<lparr>status = OK, headers = [],
                   sent = JObj [(''status'', JStr ''OK''),
                                (''authToken'', JStr (createAuthToken J S now uid))]\<rparr>
            | Rejected err \<Rightarrow> Responded internal_server_error
            | Pending \<Rightarrow> NoResponse)"
    using assms(1) Server_logIn_valid [of req uid body password B J S now users] by blast
  then show "Server_logIn B J S now users req = Responded (not_found uid)"
    using a assms by (simp add: checkPassword_valid)
next
  fix J S now and req :: request and scheme authToken
  assume a: "decodeURIComponent (params_id req) = Inr uid \<and>
            authorization req = Some (scheme @ '' '' @ authToken) \<and>
            toLowerCase scheme = ''bearer'' \<and> authToken \<noteq> [] \<and> CHR '' '' \<notin> set authToken \<and>
            checkAuthToken J S now authToken"
  then have "split_space (scheme @ '' '' @ authToken) = [scheme, authToken]"
    by (simp add: split_space_append split_space_no_space bearer_scheme_no_space)
  then show "Server_getUser J S now users req = Responded (not_found uid)"
    using a assms by (simp add: Server_getUser_token getUser_valid)
next
  show "status (not_found uid) = 404"
    by (simp add: not_found_def)
qed

theorem unknown_id_not_found_witness:
  "users_find [] (JStr ''ghost'') = [] \<and>
   UserDatabase_checkPassword plain_bcrypt [] (JStr ''ghost'') (JStr ''secret'') = Resolved NotFound \<and>
   UserDatabase_getUser [] (JStr ''ghost'') = Resolved GetNotFound \<and>
   Server_logIn plain_bcrypt unary_jwt \<lparr>port = 8443, authTimeout = 3\<rparr> 4 []
     \<lparr>params_id = Some ''ghost'', query_pw = None, req_body = Some [(''pw'', JStr ''secret'')],
      authorization = None, protocol = ''https'', hostname = ''localhost''\<rparr>
     = Responded (not_found ''ghost'') \<and>
   Server_getUser unary_jwt \<lparr>port = 8443, authTimeout = 3\<rparr> 4 []
     \<lparr>params_id = Some ''ghost'', query_pw = None, req_body = None,
      authorization = Some ''Bearer +11.+11111'', protocol = ''https'', hostname = ''localhost''\<rparr>
     = Responded (not_found ''ghost'') \<and>
   status (not_found ''ghost'') = 404"
proof -
  let ?S = "\<lparr>port = 8443, authTimeout = 3\<rparr>"
  let ?login = "\<lparr>params_id = Some ''ghost'', query_pw = None,
      req_body = Some [(''pw'', JStr ''secret'')],
      authorization = None, protocol = ''https'', hostname = ''localhost''\<rparr>"
  let ?fetch = "\<lparr>params_id = Some ''ghost'', query_pw = None, req_body = None,
      authorization = Some ''Bearer +11.+11111'', protocol = ''https'', hostname = ''localhost''\<rparr>"
  have none: "users_find [] (JStr ''ghost'') = []"
    by (simp add: users_find_def)
  have id: "decodeURIComponent (Some ''ghost'') = Inr ''ghost''"
    by (simp add: decodeURIComponent_def)
  have pw: "getprop [(''pw'', JStr ''secret'')] ''pw'' = JStr ''secret''"
    by (simp add: getprop_def)
  have lower: "toLowerCase ''Bearer'' = ''bearer''"
    by (simp add: toLowerCase_def char_of_eq_iff)
  have token: "checkAuthToken unary_jwt ?S 4 ''+11.+11111''"
    by (simp add: checkAuthToken_def unary_jwt_def of_unary_def authSecret_def)
  have ne: "''ghost'' \<noteq> []"
    by simp
  note all = unknown_id_not_found [OF ne none]
  have store: "UserDatabase_checkPassword plain_bcrypt [] (JStr ''ghost'') (JStr ''secret'')
                 = Resolved NotFound"
    by (rule all [THEN conjunct1, rule_format]) simp
  have fetched: "UserDatabase_getUser [] (JStr ''ghost'') = Resolved GetNotFound"
    by (rule all [THEN conjunct2, THEN conjunct1])
  have login: "Server_logIn plain_bcrypt unary_jwt ?S 4 [] ?login = Responded (not_found ''ghost'')"
    by (rule all [THEN conjunct2, THEN conjunct2, THEN conjunct1, rule_format,
                  of _ "[(''pw'', JStr ''secret'')]" "''secret''"])
       (simp add: id pw)
  have fetch: "Server_getUser unary_jwt ?S 4 [] ?fetch = Responded (not_found ''ghost'')"
    by (rule all [THEN conjunct2, THEN conjunct2, THEN conjunct2, THEN conjunct1, rule_format,
                  of _ "''Bearer''" "''+11.+11111''"])
       (simp add: id lower token)
  have code: "status (not_found ''ghost'') = 404"
    by (rule all [THEN conjunct2, THEN conjunct2, THEN conjunct2, THEN conjunct2])
  show ?thesis
    using none store fetched login fetch code by simp
qed

text \<open>
  As first stated, for every password and every id that is not stored, the claim
  fails: an empty password, or an empty id, is rejected for its parameters before the
  collection is searched.
\<close>

theorem unknown_id_not_found_counterexample:
  "users_find [] (JStr ''ghost'') = [] \<and>
   UserDatabase_checkPassword plain_bcrypt [] (JStr ''ghost'') (JStr '''')
     = Rejected InvalidParameters \<and>
   UserDatabase_checkPassword plain_bcrypt [] (JStr ''ghost'') (JStr '''') \<noteq> Resolved NotFound \<and>
   users_find [] (JStr '''') = [] \<and>
   UserDatabase_getUser [] (JStr '''') = Rejected InvalidParameters \<and>
   UserDatabase_getUser [] (JStr '''') \<noteq> Resolved GetNotFound"
  by (simp add: UserDatabase_checkPassword_def UserDatabase_getUser_def users_find_def)

section \<open>More than one document for an id\<close>

text \<open>
  Claim C9. When the collection holds more than one document under a non-empty id,
  \<open>createUser\<close>, \<open>checkPassword\<close> and \<open>getUser\<close> for that id, with valid
  arguments otherwise, each reject with the multiple-documents error, and
  \<open>createUser\<close> leaves the collection as it was. Each handler answers that rejection
  with 500, once, and the create-account handler leaves the collection as it was.
\<close>

theorem multiple_docs_rejected:
  assumes "1 < length (users_find users (JStr uid))" and "uid \<noteq> []"
  shows "(\<forall>B salt password d. password \<noteq> [] \<longrightarrow>
            UserDatabase_createUser B salt users (JStr uid) (JStr password) (Some d)
              = (Rejected (MultipleDocs uid), users))
       \<and> (\<forall>B password. password \<noteq> [] \<longrightarrow>
            UserDatabase_checkPassword B users (JStr uid) (JStr password)
              = Rejected (MultipleDocs uid))
       \<and> UserDatabase_getUser users (JStr uid) = Rejected (MultipleDocs uid)
       \<and> (\<forall>B J S salt now req password d.
            decodeURIComponent (params_id req) = Inr uid \<and>
            decodeURIComponent (query_pw req) = Inr password \<and> password \<noteq> [] \<and>
            req_body req = Some d \<longrightarrow>
              Server_createUser B J S salt now users req = (Responded internal_server_error, users))
       \<and> (\<forall>B J S now req body password.
            decodeURIComponent (params_id req) = Inr uid \<and> req_body req = Some body \<and>
            getprop body ''pw'' = JStr password \<and> password \<noteq> [] \<longrightarrow>
              Server_logIn B J S now users req = Responded internal_server_error)
       \<and> (\<forall>J S now req scheme authToken.
            decodeURIComponent (params_id req) = Inr uid \<and>
            authorization req = Some (scheme @ '' '' @ authToken) \<and>
            toLowerCase scheme = ''bearer'' \<and> authToken \<noteq> [] \<and> CHR '' '' \<notin> set authToken \<and>
            checkAuthToken J S now authToken \<longrightarrow>
              Server_getUser J S now users req = Responded internal_server_error)
       \<and> status internal_server_error = 500"
proof -
  have create: "UserDatabase_createUser B salt users (JStr uid) (JStr password) (Some d)
                  = (Rejected (MultipleDocs uid), users)"
    if "password \<noteq> []" for B salt password d
    using that assms by (simp add: createUser_valid more_than_one)
  have check: "UserDatabase_checkPassword B users (JStr uid) (JStr password)
                 = Rejected (MultipleDocs uid)"
    if "password \<noteq> []" for B password
    using that assms by (simp add: checkPassword_valid more_than_one)
  have get: "UserDatabase_getUser users (JStr uid) = Rejected (MultipleDocs uid)"
    using assms by (simp add: getUser_valid more_than_one)
  have create_handler:
    "Server_createUser B J S salt now users req = (Responded internal_server_error, users)"
    if "decodeURIComponent (params_id req) = Inr uid \<and>
        decodeURIComponent (query_pw req) = Inr password \<and> password \<noteq> [] \<and>
        req_body req = Some d"
    for B J S salt now and req :: request and password d
    using that assms(2) create [of password B salt d]
          Server_createUser_valid [of req uid password d B J S salt now users]
    by simp
  have login_handler:
    "Server_logIn B J S now users req = Responded internal_server_error"
    if "decodeURIComponent (params_id req) = Inr uid \<and> req_body req = Some body \<and>
        getprop body ''pw'' = JStr password \<and> password \<noteq> []"
    for B J S now and req :: request and body password
    using that assms(2) check [of password B]
          Server_logIn_valid [of req uid body password B J S now users]
    by simp
  have fetch_handler:
    "Server_getUser J S now users req = Responded internal_server_error"
    if a: "decodeURIComponent (params_id req) = Inr uid \<and>
        authorization req = Some (scheme @ '' '' @ authToken) \<and>
        toLowerCase scheme = ''bearer'' \<and> authToken \<noteq> [] \<and> CHR '' '' \<notin> set authToken \<and>
        checkAuthToken J S now authToken"
    for J S now and req :: request and scheme authToken
  proof -
    have "split_space (scheme @ '' '' @ authToken) = [scheme, authToken]"
      using a by (simp add: split_space_append split_space_no_space bearer_scheme_no_space)
    then show ?thesis
      using a assms(2) get by (simp add: Server_getUser_token)
  qed
  have code: "status internal_server_error = 500"
    by (simp add: internal_server_error_def)
  show ?thesis
    by (intro conjI allI impI)
       (erule create check create_handler login_handler fetch_handler | rule get code)+
qed

theorem multiple_docs_rejected_witness:
  "length (users_find [[(''_id'', JStr ''bob''), (''_pw'', JStr ''a'')],
                       [(''_id'', JStr ''bob''), (''_pw'', JStr ''b'')]] (JStr ''bob'')) = 2 \<and>
   UserDatabase_createUser plain_bcrypt ''salt''
     [[(''_id'', JStr ''bob''), (''_pw'', JStr ''a'')], [(''_id'', JStr ''bob''), (''_pw'', JStr ''b'')]]
     (JStr ''bob'') (JStr ''secret'') (Some [])
     = (Rejected (MultipleDocs ''bob''),
        [[(''_id'', JStr ''bob''), (''_pw'', JStr ''a'')], [(''_id'', JStr ''bob''), (''_pw'', JStr ''b'')]]) \<and>
   UserDatabase_checkPassword plain_bcrypt
     [[(''_id'', JStr ''bob''), (''_pw'', JStr ''a'')], [(''_id'', JStr ''bob''), (''_pw'', JStr ''b'')]]
     (JStr ''bob'') (JStr ''a'') = Rejected (MultipleDocs ''bob'') \<and>
   UserDatabase_getUser
     [[(''_id'', JStr ''bob''), (''_pw'', JStr ''a'')], [(''_id'', JStr ''bob''), (''_pw'', JStr ''b'')]]
     (JStr ''bob'') = Rejected (MultipleDocs ''bob'') \<and>
   Server_createUser plain_bcrypt unary_jwt \<lparr>port = 8443, authTimeout = 3\<rparr> ''salt'' 4
     [[(''_id'', JStr ''bob''), (''_pw'', JStr ''a'')], [(''_id'', JStr ''bob''), (''_pw'', JStr ''b'')]]
     \<lparr>params_id = Some ''bob'', query_pw = Some ''secret'', req_body = Some [],
      authorization = None, protocol = ''https'', hostname = ''localhost''\<rparr>
     = (Responded internal_server_error,
        [[(''_id'', JStr ''bob''), (''_pw'', JStr ''a'')], [(''_id'', JStr ''bob''), (''_pw'', JStr ''b'')]]) \<and>
   Server_logIn plain_bcrypt unary_jwt \<lparr>port = 8443, authTimeout = 3\<rparr> 4
     [[(''_id'', JStr ''bob''), (''_pw'', JStr ''a'')], [(''_id'', JStr ''bob''), (''_pw'', JStr ''b'')]]
     \<lparr>params_id = Some ''bob'', query_pw = None, req_body = Some [(''pw'', JStr ''a'')],
      authorization = None, protocol = ''https'', hostname = ''localhost''\<rparr>
     = Responded internal_server_error \<and>
   Server_getUser unary_jwt \<lparr>port = 8443, authTimeout = 3\<rparr> 4
     [[(''_id'', JStr ''bob''), (''_pw'', JStr ''a'')], [(''_id'', JStr ''bob''), (''_pw'', JStr ''b'')]]
     \<lparr>params_id = Some ''bob'', query_pw = None, req_body = None,
      authorization = Some ''Bearer +11.+11111'', protocol = ''https'', hostname = ''localhost''\<rparr>
     = Responded internal_server_error \<and>
   status internal_server_error = 500"
proof -
  let ?S = "\<lparr>port = 8443, authTimeout = 3\<rparr>"
  let ?users = "[[(''_id'', JStr ''bob''), (''_pw'', JStr ''a'')],
                 [(''_id'', JStr ''bob''), (''_pw'', JStr ''b'')]]"
  have two: "length (users_find ?users (JStr ''bob'')) = 2"
    by (simp add: users_find_def)
  then have many: "1 < length (users_find ?users (JStr ''bob''))"
    by simp
  have ne: "''bob'' \<noteq> []"
    by simp
  have id: "decodeURIComponent (Some ''bob'') = Inr ''bob''"
    by (simp add: decodeURIComponent_def)
  have pw: "decodeURIComponent (Some ''secret'') = Inr ''secret''"
    by (simp add: decodeURIComponent_def)
  have body_pw: "getprop [(''pw'', JStr ''a'')] ''pw'' = JStr ''a''"
    by (simp add: getprop_def)
  have lower: "toLowerCase ''Bearer'' = ''bearer''"
    by (simp add: toLowerCase_def char_of_eq_iff)
  have token: "checkAuthToken unary_jwt ?S 4 ''+11.+11111''"
    by (simp add: checkAuthToken_def unary_jwt_def of_unary_def authSecret_def)
  note all = multiple_docs_rejected [OF many ne]
  note rest1 = all [THEN conjunct2]
  note rest2 = rest1 [THEN conjunct2]
  note rest3 = rest2 [THEN conjunct2]
  note rest4 = rest3 [THEN conjunct2]
  note rest5 = rest4 [THEN conjunct2]
  have c1: "UserDatabase_createUser plain_bcrypt ''salt'' ?users (JStr ''bob'') (JStr ''secret'')
              (Some []) = (Rejected (MultipleDocs ''bob''), ?users)"
    by (rule all [THEN conjunct1, rule_format]) simp
  have c2: "UserDatabase_checkPassword plain_bcrypt ?users (JStr ''bob'') (JStr ''a'')
              = Rejected (MultipleDocs ''bob'')"
    by (rule rest1 [THEN conjunct1, rule_format]) simp
  have c3: "UserDatabase_getUser ?users (JStr ''bob'') = Rejected (MultipleDocs ''bob'')"
    by (rule rest2 [THEN conjunct1])
  have c4: "Server_createUser plain_bcrypt unary_jwt ?S ''salt'' 4 ?users
     \<lparr>params_id = Some ''bob'', query_pw = Some ''secret'', req_body = Some [],
      authorization = None, protocol = ''https'', hostname = ''localhost''\<rparr>
     = (Responded internal_server_error, ?users)"
    by (rule rest3 [THEN conjunct1, rule_format, of _ "''secret''" "[]"]) (simp add: id pw)
  have c5: "Server_logIn plain_bcrypt unary_jwt ?S 4 ?users
     \<lparr>params_id = Some ''bob'', query_pw = None, req_body = Some [(''pw'', JStr ''a'')],
      authorization = None, protocol = ''https'', hostname = ''localhost''\<rparr>
     = Responded internal_server_error"
    by (rule rest4 [THEN conjunct1, rule_format, of _ "[(''pw'', JStr ''a'')]" "''a''"])
       (simp add: id body_pw)
  have c6: "Server_getUser unary_jwt ?S 4 ?users
     \<lparr>params_id = Some ''bob'', query_pw = None, req_body = None,
      authorization = Some ''Bearer +11.+11111'', protocol = ''https'', hostname = ''localhost''\<rparr>
     = Responded internal_server_error"
    by (rule rest5 [THEN conjunct1, rule_format, of _ "''Bearer''" "''+11.+11111''"])
       (simp add: id lower token)
  have c7: "status internal_server_error = 500"
    by (rule rest5 [THEN conjunct2])
  show ?thesis
    using two c1 c2 c3 c4 c5 c6 c7 by simp
qed

section \<open>A create-account request without a password\<close>

text \<open>
  The create-account handler answers 400, and leaves the collection alone, when the
  decoded id or the decoded password is the empty string or when there is no body.
\<close>

lemma createUser_bad_request:
  assumes "decodeURIComponent (params_id req) = Inr uid"
    and "decodeURIComponent (query_pw req) = Inr password"
    and "uid = [] \<or> password = [] \<or> req_body req = None"
  shows "Server_createUser B J S salt now users req =
           (Responded (bad_request ''ID, password, or body is invalid''), users)"
  using assms by (auto simp add: Server_createUser_def Let_def)

lemma decodeURIComponent_undefined: "decodeURIComponent None = Inr ''undefined''"
  by (simp add: decodeURIComponent_def)

text \<open>
  Claim C3 says that a create-account request without an id, without the \<open>pw\<close> query
  parameter or without a body is answered 400 and performs no store operation. The code
  does otherwise for an absent \<open>pw\<close>: \<open>decodeURIComponent\<close> of undefined is the
  string \<open>undefined\<close>, which is not empty, so the check lets the request through. On a
  collection without the id the request is answered 201, and an account whose password
  is \<open>undefined\<close> is stored.
\<close>

theorem createUser_missing_pw_creates:
  assumes "query_pw req = None"
    and "decodeURIComponent (params_id req) = Inr uid" and "uid \<noteq> []"
    and "req_body req = Some d"
    and "users_find users (JStr uid) = []"
  shows "Server_createUser B J S salt now users req =
           (Responded
              \<lparr>status = CREATED,
               headers = [(''Location'', getRequestBaseUrl S req @ ''users/'' @ uid)],
               sent = JObj [(''status'', JStr ''CREATED''),
                            (''authToken'', JStr (createAuthToken J S now uid))]\<rparr>,
            users @ [AList.update ''_pw'' (JStr (bcrypt_hash B ''undefined'' 10 salt))
                       (AList.update ''_id'' (JStr uid) d)])"
proof -
  have "decodeURIComponent (query_pw req) = Inr ''undefined''"
    using assms(1) by (simp add: decodeURIComponent_undefined)
  then show ?thesis
    using assms Server_createUser_valid [of req uid "''undefined''" d B J S salt now users]
    by (simp add: createUser_valid)
qed

theorem createUser_missing_pw_creates_witness:
  "decodeURIComponent (Some ''bob'') = Inr ''bob'' \<and>
   Server_createUser plain_bcrypt unary_jwt \<lparr>port = 8443, authTimeout = 3\<rparr> ''salt'' 2 []
     \<lparr>params_id = Some ''bob'', query_pw = None, req_body = Some [(''age'', JNum 30)],
      authorization = None, protocol = ''https'', hostname = ''localhost''\<rparr>
   = (Responded
        \<lparr>status = 201,
         headers = [(''Location'', ''https://localhost:8443/users/bob'')],
         sent = JObj [(''status'', JStr ''CREATED''), (''authToken'', JStr ''+11.+11111'')]\<rparr>,
      [[(''age'', JNum 30), (''_id'', JStr ''bob''), (''_pw'', JStr ''undefined'')]])"
proof -
  let ?S = "\<lparr>port = 8443, authTimeout = 3\<rparr>"
  let ?req = "\<lparr>params_id = Some ''bob'', query_pw = None, req_body = Some [(''age'', JNum 30)],
      authorization = None, protocol = ''https'', hostname = ''localhost''\<rparr>"
  have id: "decodeURIComponent (Some ''bob'') = Inr ''bob''"
    by (simp add: decodeURIComponent_def)
  have none: "users_find [] (JStr ''bob'') = []"
    by (simp add: users_find_def)
  have url: "getRequestBaseUrl ?S ?req = ''https://localhost:8443/''"
    by (simp add: getRequestBaseUrl_def char_of_eq_iff)
  have token: "createAuthToken unary_jwt ?S 2 ''bob'' = ''+11.+11111''"
    by (simp add: createAuthToken_def unary_jwt_def unary_def eval_nat_numeral)
  have "Server_createUser plain_bcrypt unary_jwt ?S ''salt'' 2 [] ?req =
          (Responded
              \<lparr>status = CREATED,
               headers = [(''Location'', getRequestBaseUrl ?S ?req @ ''users/'' @ ''bob'')],
               sent = JObj [(''status'', JStr ''CREATED''),
                            (''authToken'', JStr (createAuthToken unary_jwt ?S 2 ''bob''))]\<rparr>,
            [] @ [AList.update ''_pw'' (JStr (bcrypt_hash plain_bcrypt ''undefined'' 10 ''salt''))
                       (AList.update ''_id'' (JStr ''bob'') [(''age'', JNum 30)])])"
    by (rule createUser_missing_pw_creates) (simp_all add: id none)
  then show ?thesis
    using id by (simp add: url token plain_bcrypt_def)
qed

end
